theory Spec2Isabelle
  imports Complex_Main "HOL-Library.Char_ord" "HOL-Library.List_Lexorder"
begin

section \<open>District-wise rainfall map: reconciliation and classification\<close>

text \<open>
  A shallow embedding of \<^verbatim>\<open>generate_rainfall_map.py\<close>. Conventions of the model:
  \<^item> Python floats are idealised as \<^typ>\<open>real\<close>. The classifier only compares its argument
    with the literals \<^verbatim>\<open>0\<close>, \<^verbatim>\<open>64.5\<close>, \<^verbatim>\<open>115.5\<close> and \<^verbatim>\<open>204.4\<close>, and comparisons of
    doubles are exact. NaN is the value \<open>None\<close> of \<^typ>\<open>real option\<close>: it only exists between
    \<^verbatim>\<open>pd.to_numeric(..., errors='coerce')\<close> and \<^verbatim>\<open>.fillna(0)\<close>. Infinities are not modelled.
  \<^item> Labels are ASCII strings; \<^verbatim>\<open>str.strip\<close>, \<^verbatim>\<open>str.upper\<close> and \<^verbatim>\<open>str.lower\<close> are modelled
    on ASCII, where a character is one \<^typ>\<open>char\<close>.
  \<^item> Every \<^verbatim>\<open>print\<close> of the source is a constructor of the type \<open>message\<close>, carrying the
    values the f-string interpolates; a run returns the messages it printed, in order.
  \<^item> Polygon geometry is opaque: a feature is identified by its position in its table.
\<close>

subsection \<open>Python string operations used by the pipeline\<close>

text \<open>\<^verbatim>\<open>str.isspace\<close> on one ASCII character: TAB, LF, VT, FF, CR, FS, GS, RS, US and space.\<close>

definition isspace :: "char \<Rightarrow> bool" where
  "isspace c = (of_char c \<in> {9, 10, 11, 12, 13, 28, 29, 30, 31, 32 :: nat})"

text \<open>\<^verbatim>\<open>s.strip()\<close>: leading and trailing whitespace removed.\<close>

definition str_strip :: "string \<Rightarrow> string" where
  "str_strip s = rev (dropWhile isspace (rev (dropWhile isspace s)))"

definition char_upper :: "char \<Rightarrow> char" where
  "char_upper c =
     (let n = of_char c :: nat in if 97 \<le> n \<and> n \<le> 122 then char_of (n - 32) else c)"

definition str_upper :: "string \<Rightarrow> string" where
  "str_upper s = map char_upper s"

definition char_lower :: "char \<Rightarrow> char" where
  "char_lower c =
     (let n = of_char c :: nat in if 65 \<le> n \<and> n \<le> 90 then char_of (n + 32) else c)"

definition str_lower :: "string \<Rightarrow> string" where
  "str_lower s = map char_lower s"

subsection \<open>Classifier (\<^verbatim>\<open>get_color\<close>, \<^verbatim>\<open>get_category\<close>)\<close>

definition get_color :: "real \<Rightarrow> string" where
  "get_color v =
     (if v = 0 then ''#D3D3D3''
      else if 0 < v \<and> v < 64.5 then ''#FFFFE0''
      else if 64.5 \<le> v \<and> v \<le> 115.5 then ''#FFA500''
      else if 115.5 < v \<and> v \<le> 204.4 then ''#FF0000''
      else if v > 204.4 then ''#8B0000''
      else ''#D3D3D3'')"

definition get_category :: "real \<Rightarrow> string" where
  "get_category v =
     (if v = 0 then ''No Rainfall''
      else if 0 < v \<and> v < 64.5 then ''Moderate Rainfall''
      else if 64.5 \<le> v \<and> v \<le> 115.5 then ''Heavy Rainfall''
      else if 115.5 < v \<and> v \<le> 204.4 then ''Very Heavy Rainfall''
      else if v > 204.4 then ''Extremely Heavy Rainfall''
      else ''No Data'')"

text \<open>
  The specification's table of severity buckets, written from its words: the range, the
  label and the colour of each bucket (light grey, light yellow, orange, red, dark red,
  with the hexadecimal codes the source's comments give these names).
\<close>

datatype bucket = NONE | MODERATE | HEAVY | VERY_HEAVY | EXTREME

fun spec_range :: "bucket \<Rightarrow> real \<Rightarrow> bool" where
  "spec_range NONE v = (v = 0)"
| "spec_range MODERATE v = (0 < v \<and> v < 64.5)"
| "spec_range HEAVY v = (64.5 \<le> v \<and> v \<le> 115.5)"
| "spec_range VERY_HEAVY v = (115.5 < v \<and> v \<le> 204.4)"
| "spec_range EXTREME v = (v > 204.4)"

fun spec_label :: "bucket \<Rightarrow> string" where
  "spec_label NONE = ''No Rainfall''"
| "spec_label MODERATE = ''Moderate Rainfall''"
| "spec_label HEAVY = ''Heavy Rainfall''"
| "spec_label VERY_HEAVY = ''Very Heavy Rainfall''"
| "spec_label EXTREME = ''Extremely Heavy Rainfall''"

fun spec_color :: "bucket \<Rightarrow> string" where
  "spec_color NONE = ''#D3D3D3''"
| "spec_color MODERATE = ''#FFFFE0''"
| "spec_color HEAVY = ''#FFA500''"
| "spec_color VERY_HEAVY = ''#FF0000''"
| "spec_color EXTREME = ''#8B0000''"

subsection \<open>Identity normalisation (lines 66-83, 137 and 144-156)\<close>

text \<open>The alias tables, in the source's order.\<close>

definition name_mapping :: "(string \<times> string) list" where
  "name_mapping =
     [(''AHILYANAGAR'', ''AHMADNAGAR''),
      (''CHHATRAPATI SAMBHAJI NAGAR'', ''AURANGABAD''),
      (''CHATRAPATI SAMBHAJI NAGAR'', ''AURANGABAD''),
      (''DHARASHIV'', ''OSMANABAD''),
      (''RAIGAD'', ''RAIGARH''),
      (''SHOLAPUR'', ''SOLAPUR''),
      (''BEED'', ''BID'')]"

definition goa_mapping :: "(string \<times> string) list" where
  "goa_mapping = [(''NORTH GOA'', ''GOA'')]"

text \<open>
  \<^verbatim>\<open>Series.replace(mapping)\<close> on one cell: a cell equal to a key becomes the key's value;
  every other cell is kept.
\<close>

definition replace_values :: "(string \<times> string) list \<Rightarrow> string \<Rightarrow> string" where
  "replace_values m s = (case map_of m s of Some t \<Rightarrow> t | None \<Rightarrow> s)"

text \<open>\<^verbatim>\<open>.astype(str).str.strip().str.upper()\<close> on one cell that holds a string.\<close>

definition strip_upper :: "string \<Rightarrow> string" where
  "strip_upper raw = str_upper (str_strip raw)"

text \<open>The measurement table's district key (lines 67 and 83).\<close>

definition normalize_district :: "string \<Rightarrow> string" where
  "normalize_district raw = replace_values name_mapping (strip_upper raw)"

text \<open>The supplementary geometry's district key (lines 144 and 156).\<close>

definition normalize_goa :: "string \<Rightarrow> string" where
  "normalize_goa raw = replace_values goa_mapping (strip_upper raw)"

text \<open>
  The specification's "known aliases of the same district": a raw label denotes the
  canonical key \<open>t\<close> when its trimmed, uppercased form is \<open>t\<close> itself or a key of the
  alias table whose value is \<open>t\<close>.
\<close>

definition alias_of :: "string \<Rightarrow> string \<Rightarrow> bool" where
  "alias_of t raw =
     (strip_upper raw = t \<or> map_of name_mapping (strip_upper raw) = Some t)"

subsection \<open>Measurement table and aggregation (lines 56-97)\<close>

text \<open>
  A JSON value of the rainfall field (a number, a string or null), and a measurement
  record: the district label and the \<^verbatim>\<open>R/F\<close> field, \<open>None\<close> when the record has no
  such key. Every record has the key \<^verbatim>\<open>DISTRICT\<close> with a string: without that column
  line 67 raises \<^verbatim>\<open>KeyError\<close>, which the type of the records excludes.
\<close>

datatype jvalue = JNum real | JStr string | JNull

record measurement =
  DISTRICT :: string
  RF :: "jvalue option"

text \<open>
  \<^verbatim>\<open>pd.DataFrame(data)\<close> has a column \<^verbatim>\<open>R/F\<close> when some record has the key.
\<close>

definition has_rf_column :: "measurement list \<Rightarrow> bool" where
  "has_rf_column data = list_ex (\<lambda>r. RF r \<noteq> None) data"

text \<open>
  \<^verbatim>\<open>pd.to_numeric(..., errors='coerce')\<close> on one cell; \<open>None\<close> is NaN. The conversion of a
  string to a float is pandas's, taken as the parameter \<open>parse\<close>.
\<close>

definition to_numeric :: "(string \<Rightarrow> real option) \<Rightarrow> jvalue option \<Rightarrow> real option" where
  "to_numeric parse c =
     (case c of
        None \<Rightarrow> None
      | Some JNull \<Rightarrow> None
      | Some (JNum x) \<Rightarrow> Some x
      | Some (JStr s) \<Rightarrow> parse s)"

definition fillna :: "real \<Rightarrow> real option \<Rightarrow> real" where
  "fillna d c = (case c of None \<Rightarrow> d | Some x \<Rightarrow> x)"

text \<open>Lines 64-83: the rows \<open>(DISTRICT, R/F)\<close> of the data frame.\<close>

definition prepare_rows ::
    "(string \<Rightarrow> real option) \<Rightarrow> measurement list \<Rightarrow> (string \<times> real) list" where
  "prepare_rows parse data =
     map (\<lambda>r. (normalize_district (DISTRICT r), fillna 0 (to_numeric parse (RF r)))) data"

text \<open>Lines 85-92: the rows of MUMBAI are appended again under MUMBAI SUBURBAN.\<close>

definition mumbai_fires :: "(string \<times> real) list \<Rightarrow> bool" where
  "mumbai_fires df =
     (''MUMBAI'' \<in> set (map fst df) \<and> filter (\<lambda>r. fst r = ''MUMBAI'') df \<noteq> [])"

definition mumbai_split :: "(string \<times> real) list \<Rightarrow> (string \<times> real) list" where
  "mumbai_split df =
     (if ''MUMBAI'' \<in> set (map fst df)
      then let mumbai_row = filter (\<lambda>r. fst r = ''MUMBAI'') df in
           if mumbai_row \<noteq> []
           then df @ map (\<lambda>r. (''MUMBAI SUBURBAN'', snd r)) mumbai_row
           else df
      else df)"

text \<open>
  Lines 95-97: \<^verbatim>\<open>groupby('DISTRICT')['R/F'].mean()\<close>, keys sorted, then \<^verbatim>\<open>round(1)\<close>.
  \<open>rint\<close> rounds to the nearest integer, a tie to the even one, as numpy does.
\<close>

definition mean :: "real list \<Rightarrow> real" where
  "mean xs = sum_list xs / real (length xs)"

definition rint :: "real \<Rightarrow> int" where
  "rint x =
     (let f = \<lfloor>x\<rfloor>; d = x - of_int f in
      if d < 1 / 2 then f else if 1 / 2 < d then f + 1 else if even f then f else f + 1)"

definition round1 :: "real \<Rightarrow> real" where
  "round1 x = of_int (rint (x * 10)) / 10"

definition group_values :: "string \<Rightarrow> (string \<times> real) list \<Rightarrow> real list" where
  "group_values d df = map snd (filter (\<lambda>r. fst r = d) df)"

definition rain_agg :: "(string \<times> real) list \<Rightarrow> (string \<times> real) list" where
  "rain_agg df =
     map (\<lambda>d. (d, round1 (mean (group_values d df)))) (sort (remdups (map fst df)))"

subsection \<open>Geometry tables and the district column (lines 120-164)\<close>

datatype dtype = ObjectDtype | StringDtype | IntDtype | FloatDtype | BoolDtype | GeometryDtype

text \<open>
  An attribute column of a geometry table: its name, its dtype and its cells, each as
  \<^verbatim>\<open>astype(str)\<close> renders it. A table is the list of its columns, in order, with
  distinct names; all columns of a table have one cell per feature.
\<close>

record column =
  col_name :: string
  col_dtype :: dtype
  col_values :: "string list"

definition potential_cols :: "string list" where
  "potential_cols =
     [''dtname'', ''district'', ''DISTRICT'', ''NAME_2'', ''Dist_Name'', ''Name'',
      ''objectid'', ''censuscode'']"

text \<open>
  \<^verbatim>\<open>is_string_dtype\<close> also inspects the cells of an object column; the source takes the
  disjunction with \<^verbatim>\<open>is_object_dtype\<close>, which accepts every object column.
\<close>

definition is_string_dtype :: "column \<Rightarrow> bool" where
  "is_string_dtype c = (col_dtype c = StringDtype)"

definition is_object_dtype :: "column \<Rightarrow> bool" where
  "is_object_dtype c = (col_dtype c = ObjectDtype)"

text \<open>
  The specification's condition on an attribute, written from its words. Two names match
  case-insensitively when they have the same length and agree character by character,
  where a capital letter of A-Z and its small letter agree. An attribute qualifies when
  its name matches one of the candidate names in this sense and its dtype is textual
  (string or object).
\<close>

definition same_letter :: "char \<Rightarrow> char \<Rightarrow> bool" where
  "same_letter c d =
     (let m = of_char c :: nat; n = of_char d :: nat in
      c = d \<or> (65 \<le> m \<and> m \<le> 90 \<and> n = m + 32) \<or> (65 \<le> n \<and> n \<le> 90 \<and> m = n + 32))"

definition same_name :: "string \<Rightarrow> string \<Rightarrow> bool" where
  "same_name a b = list_all2 same_letter a b"

definition textual :: "dtype \<Rightarrow> bool" where
  "textual d = (d = StringDtype \<or> d = ObjectDtype)"

definition qualifies :: "column \<Rightarrow> bool" where
  "qualifies c = (list_ex (same_name (col_name c)) potential_cols \<and> textual (col_dtype c))"

fun find_district_col :: "column list \<Rightarrow> string option" where
  "find_district_col [] = None"
| "find_district_col (c # cs) =
     (if str_lower (col_name c) \<in> set (map str_lower potential_cols)
      then (if is_string_dtype c \<or> is_object_dtype c then Some (col_name c)
            else find_district_col cs)
      else find_district_col cs)"

text \<open>\<^verbatim>\<open>gdf[dist_col]\<close>: the cells of the column of that name.\<close>

definition column_values :: "column list \<Rightarrow> string \<Rightarrow> string list" where
  "column_values gdf c =
     (case find (\<lambda>a. col_name a = c) gdf of Some a \<Rightarrow> col_values a | None \<Rightarrow> [])"

text \<open>A geometry feature: its native label and the key \<^verbatim>\<open>DISTRICT_NORM\<close>.\<close>

record geo_row =
  native_label :: string
  DISTRICT_NORM :: string

definition normalize_main :: "column list \<Rightarrow> string \<Rightarrow> geo_row list" where
  "normalize_main gdf c =
     map (\<lambda>l. \<lparr>native_label = l, DISTRICT_NORM = strip_upper l\<rparr>) (column_values gdf c)"

definition normalize_goa_rows :: "column list \<Rightarrow> string \<Rightarrow> geo_row list" where
  "normalize_goa_rows gdf c =
     map (\<lambda>l. \<lparr>native_label = l, DISTRICT_NORM = normalize_goa l\<rparr>) (column_values gdf c)"

subsection \<open>Matching report and merge (lines 168-198)\<close>

definition unmatched_json :: "(string \<times> real) list \<Rightarrow> geo_row list \<Rightarrow> string set" where
  "unmatched_json agg gdf = set (map fst agg) - set (map DISTRICT_NORM gdf)"

definition missing_data_map :: "(string \<times> real) list \<Rightarrow> geo_row list \<Rightarrow> string set" where
  "missing_data_map agg gdf = set (map DISTRICT_NORM gdf) - set (map fst agg)"

text \<open>
  \<^verbatim>\<open>gdf.merge(rain_agg, left_on='DISTRICT_NORM', right_on='DISTRICT', how='left')\<close>: the
  left rows in order, each once per matching right row, or once with NaN when none matches.
\<close>

fun merge_left :: "geo_row list \<Rightarrow> (string \<times> real) list \<Rightarrow> (geo_row \<times> real option) list" where
  "merge_left [] agg = []"
| "merge_left (g # gs) agg =
     (let ms = filter (\<lambda>r. fst r = DISTRICT_NORM g) agg in
      if ms = [] then [(g, None)] else map (\<lambda>r. (g, Some (snd r))) ms)
     @ merge_left gs agg"

record merged_row = geo_row +
  RAINFALL_MM :: real
  CATEGORY :: string
  COLOR :: string

text \<open>
  Lines 187-192. The tooltip column \<^verbatim>\<open>RAINFALL_DISPLAY\<close> renders \<^verbatim>\<open>RAINFALL_MM\<close> as text
  and is not part of the model.
\<close>

definition assemble :: "geo_row \<times> real option \<Rightarrow> merged_row" where
  "assemble gv =
     (let mm = fillna 0 (snd gv) in
      \<lparr>native_label = native_label (fst gv), DISTRICT_NORM = DISTRICT_NORM (fst gv),
       RAINFALL_MM = mm, CATEGORY = get_category mm, COLOR = get_color mm\<rparr>)"

definition reconcile :: "geo_row list \<Rightarrow> (string \<times> real) list \<Rightarrow> merged_row list" where
  "reconcile gdf agg = map assemble (merge_left gdf agg)"

subsection \<open>The run: \<^verbatim>\<open>process_data\<close> and the main block\<close>

definition RAINFALL_FILE :: string where
  "RAINFALL_FILE = ''June_2025_Realized.json''"

definition GEOJSON_FILE :: string where
  "GEOJSON_FILE = ''MAHARASHTRA_DISTRICTS.geojson''"

definition GOA_FILE :: string where
  "GOA_FILE = ''GOA_DISTRICTS.geojson''"

text \<open>
  One constructor per \<^verbatim>\<open>print\<close> of the source, in the order of the source's lines. The
  text of a caught exception is not kept.
\<close>

datatype message =
    MsgStep1
  | MsgErrorLoading string
  | MsgErrorNoRF
  | MsgInfoMumbaiDuplicated
  | MsgLoaded nat
  | MsgStep2
  | MsgLoadingGoa
  | MsgWarningGoaNotFound
  | MsgErrorNoDistrictColMain
  | MsgUsingColMain string
  | MsgUsingColGoa string
  | MsgAddedGoa nat
  | MsgErrorNoDistrictColGoa
  | MsgReportHeader
  | MsgUnmatchedJson nat "string list"
  | MsgAllMatched
  | MsgMissingData nat "string list"
  | MsgReportFooter
  | MsgStep3
  | MsgMerged nat
  | MsgStep4
  | MsgSaved string
  | MsgStep5
  | MsgDone


text \<open>
  The supplementary geometry file: absent, present but unreadable, or read
  (lines 110-118).
\<close>

datatype goa_source = GoaMissing | GoaUnreadable | GoaLoaded "column list"

definition load_goa :: "goa_source \<Rightarrow> message list \<times> column list option" where
  "load_goa src =
     (case src of
        GoaMissing \<Rightarrow> ([MsgWarningGoaNotFound], None)
      | GoaUnreadable \<Rightarrow> ([MsgLoadingGoa, MsgErrorLoading GOA_FILE], None)
      | GoaLoaded g \<Rightarrow> ([MsgLoadingGoa], Some g))"

text \<open>Lines 140-166: the supplementary features are appended to the primary ones.\<close>

definition merge_goa :: "geo_row list \<Rightarrow> column list option \<Rightarrow> message list \<times> geo_row list" where
  "merge_goa gdf goa_gdf =
     (case goa_gdf of
        None \<Rightarrow> ([], gdf)
      | Some g \<Rightarrow>
          (case find_district_col g of
             Some goa_dist_col \<Rightarrow>
               (let goa_rows = normalize_goa_rows g goa_dist_col in
                ([MsgUsingColGoa goa_dist_col, MsgAddedGoa (length goa_rows)], gdf @ goa_rows))
           | None \<Rightarrow> ([MsgErrorNoDistrictColGoa], gdf)))"

text \<open>Lines 175-183.\<close>

definition matching_report :: "(string \<times> real) list \<Rightarrow> geo_row list \<Rightarrow> message list" where
  "matching_report agg gdf =
     [MsgReportHeader]
     @ (if unmatched_json agg gdf \<noteq> {}
        then [MsgUnmatchedJson (card (unmatched_json agg gdf))
                (sorted_list_of_set (unmatched_json agg gdf))]
        else [MsgAllMatched])
     @ (if missing_data_map agg gdf \<noteq> {}
        then [MsgMissingData (card (missing_data_map agg gdf))
                (sorted_list_of_set (missing_data_map agg gdf))]
        else [])
     @ [MsgReportFooter]"

text \<open>
  \<^verbatim>\<open>process_data\<close>. Its inputs are what the three files hold: the rainfall records
  (\<open>None\<close> when the file cannot be read or parsed), the primary geometry table (\<open>None\<close>
  likewise) and the supplementary source. It returns the messages printed and the pair
  \<^verbatim>\<open>(merged, dist_col)\<close>, or \<open>None\<close> where the source returns \<^verbatim>\<open>(None, None)\<close>.
\<close>

definition process_data ::
    "(string \<Rightarrow> real option) \<Rightarrow> measurement list option \<Rightarrow> column list option \<Rightarrow> goa_source
     \<Rightarrow> message list \<times> (merged_row list \<times> string) option" where
  "process_data parse rain_file geo_file goa_file =
     (case rain_file of
        None \<Rightarrow> ([MsgStep1, MsgErrorLoading RAINFALL_FILE], None)
      | Some data \<Rightarrow>
          if \<not> has_rf_column data then ([MsgStep1, MsgErrorNoRF], None)
          else
            let df = prepare_rows parse data;
                agg = rain_agg (mumbai_split df);
                log1 = [MsgStep1]
                  @ (if mumbai_fires df then [MsgInfoMumbaiDuplicated] else [])
                  @ [MsgLoaded (length agg), MsgStep2]
            in
            (case geo_file of
               None \<Rightarrow> (log1 @ [MsgErrorLoading GEOJSON_FILE], None)
             | Some gdf0 \<Rightarrow>
                 let log2 = fst (load_goa goa_file);
                     goa_gdf = snd (load_goa goa_file)
                 in
                 (case find_district_col gdf0 of
                    None \<Rightarrow> (log1 @ log2 @ [MsgErrorNoDistrictColMain], None)
                  | Some dist_col \<Rightarrow>
                      let log3 = fst (merge_goa (normalize_main gdf0 dist_col) goa_gdf);
                          gdf = snd (merge_goa (normalize_main gdf0 dist_col) goa_gdf);
                          merged = reconcile gdf agg
                      in
                      (log1 @ log2 @ [MsgUsingColMain dist_col] @ log3
                         @ matching_report agg gdf
                         @ [MsgStep3, MsgMerged (length merged)],
                       Some (merged, dist_col)))))"

text \<open>
  The main block (lines 298-303). The two renderers are outside the model and may raise:
  \<open>render\<close> stands for what \<^verbatim>\<open>create_static_map\<close>, \<^verbatim>\<open>create_interactive_map\<close> and the final
  \<^verbatim>\<open>print("Done.")\<close> print and which files they save, given the merged table and the
  column name. They are called only when \<^verbatim>\<open>process_data\<close> returned a table.
\<close>

datatype artifact = OUTPUT_PNG | OUTPUT_SVG | OUTPUT_HTML

definition main ::
    "(merged_row list \<Rightarrow> string \<Rightarrow> message list \<times> artifact list)
     \<Rightarrow> (string \<Rightarrow> real option) \<Rightarrow> measurement list option \<Rightarrow> column list option
     \<Rightarrow> goa_source \<Rightarrow> message list \<times> artifact list" where
  "main render parse rain_file geo_file goa_file =
     (case process_data parse rain_file geo_file goa_file of
        (msgs, None) \<Rightarrow> (msgs, [])
      | (msgs, Some (merged_gdf, district_col_name)) \<Rightarrow>
          (msgs @ fst (render merged_gdf district_col_name),
           snd (render merged_gdf district_col_name)))"

text \<open>
  A conversion of plain decimal numerals (an optional sign, digits, an optional point
  and digits), used for the concrete runs below where \<open>parse\<close> must be given.
\<close>

definition digit_val :: "char \<Rightarrow> nat option" where
  "digit_val c =
     (let n = of_char c :: nat in if 48 \<le> n \<and> n \<le> 57 then Some (n - 48) else None)"

fun digits_val :: "nat \<Rightarrow> string \<Rightarrow> nat option" where
  "digits_val acc [] = Some acc"
| "digits_val acc (c # cs) =
     (case digit_val c of None \<Rightarrow> None | Some d \<Rightarrow> digits_val (10 * acc + d) cs)"

definition parse_unsigned :: "string \<Rightarrow> real option" where
  "parse_unsigned s =
     (let ip = takeWhile (\<lambda>c. c \<noteq> CHR ''.'') s;
          fp = drop 1 (dropWhile (\<lambda>c. c \<noteq> CHR ''.'') s)
      in if ip = [] then None
         else (case (digits_val 0 ip, digits_val 0 fp) of
                 (Some i, Some f) \<Rightarrow> Some (real i + real f / 10 ^ length fp)
               | _ \<Rightarrow> None))"

definition parse_decimal :: "string \<Rightarrow> real option" where
  "parse_decimal s =
     (case s of
        [] \<Rightarrow> None
      | c # cs \<Rightarrow>
          if c = CHR ''-'' then map_option uminus (parse_unsigned cs)
          else if c = CHR ''+'' then parse_unsigned cs
          else parse_unsigned s)"

section \<open>Properties\<close>

subsection \<open>Classifier\<close>

lemma spec_range_unique: "spec_range b v \<Longrightarrow> spec_range b' v \<Longrightarrow> b = b'"
  by (cases b; cases b'; simp)

lemma spec_range_exists: "0 \<le> v \<Longrightarrow> \<exists>b. spec_range b v"
proof -
  assume nonneg: "0 \<le> v"
  consider "v = 0" | "0 < v \<and> v < 64.5" | "64.5 \<le> v \<and> v \<le> 115.5"
    | "115.5 < v \<and> v \<le> 204.4" | "v > 204.4"
    using nonneg by linarith
  then show ?thesis
  proof cases
    case 1 then have "spec_range NONE v" by simp
    then show ?thesis ..
  next
    case 2 then have "spec_range MODERATE v" by simp
    then show ?thesis ..
  next
    case 3 then have "spec_range HEAVY v" by simp
    then show ?thesis ..
  next
    case 4 then have "spec_range VERY_HEAVY v" by simp
    then show ?thesis ..
  next
    case 5 then have "spec_range EXTREME v" by simp
    then show ?thesis ..
  qed
qed

lemma get_category_spec: "spec_range b v \<Longrightarrow> get_category v = spec_label b"
  by (cases b) (auto simp: get_category_def)

lemma get_color_spec: "spec_range b v \<Longrightarrow> get_color v = spec_color b"
  by (cases b) (auto simp: get_color_def)

text \<open>
  C1. On every value \<open>v \<ge> 0\<close> exactly one of the five buckets applies, and the
  classifier returns that bucket's label and colour. The boundary values fall on the
  documented side: 0 is "No Rainfall" in light grey, 64.5 and 115.5 are "Heavy Rainfall",
  and 204.4 is "Very Heavy Rainfall".
\<close>

theorem classify_partition:
  assumes "0 \<le> v"
  shows "(\<exists>!b. spec_range b v)
       \<and> (\<forall>b. spec_range b v \<longrightarrow> get_category v = spec_label b \<and> get_color v = spec_color b)
       \<and> get_category 0 = ''No Rainfall'' \<and> get_color 0 = ''#D3D3D3''
       \<and> get_category 64.5 = ''Heavy Rainfall'' \<and> get_color 64.5 = ''#FFA500''
       \<and> get_category 115.5 = ''Heavy Rainfall'' \<and> get_color 115.5 = ''#FFA500''
       \<and> get_category 204.4 = ''Very Heavy Rainfall'' \<and> get_color 204.4 = ''#FF0000''"
proof -
  have "\<exists>!b. spec_range b v"
    using spec_range_exists [OF assms] spec_range_unique by blast
  moreover have "\<forall>b. spec_range b v \<longrightarrow> get_category v = spec_label b \<and> get_color v = spec_color b"
    using get_category_spec get_color_spec by blast
  moreover have "get_category 0 = ''No Rainfall''" "get_color 0 = ''#D3D3D3''"
    "get_category 64.5 = ''Heavy Rainfall''" "get_color 64.5 = ''#FFA500''"
    "get_category 115.5 = ''Heavy Rainfall''" "get_color 115.5 = ''#FFA500''"
    "get_category 204.4 = ''Very Heavy Rainfall''" "get_color 204.4 = ''#FF0000''"
    by (simp_all add: get_category_def get_color_def)
  ultimately show ?thesis by blast
qed

theorem classify_partition_witness:
  "(0::real) \<le> 115.5 \<and> spec_range HEAVY 115.5 \<and> \<not> spec_range VERY_HEAVY 115.5
   \<and> get_category 115.5 = spec_label HEAVY \<and> get_color 115.5 = spec_color HEAVY"
proof -
  have h: "(0::real) \<le> 115.5" by simp
  have r: "spec_range HEAVY 115.5" by simp
  show ?thesis using classify_partition [OF h] r by simp
qed

text \<open>
  C2 (as stated, refuted). The claim gives a negative value the result of
  \<open>classify 0\<close>, label "No Rainfall" included. At \<open>-1\<close> the source's final
  \<^verbatim>\<open>else\<close> returns the label "No Data", which is not the label of 0.
\<close>

theorem negative_label_counterexample:
  "get_category (-1) = ''No Data'' \<and> get_category 0 = ''No Rainfall''
   \<and> get_category (-1) \<noteq> get_category 0"
  by (simp add: get_category_def)

text \<open>
  C2 (amended). For every negative value the classifier returns the colour of the NONE
  bucket (light grey, the colour of 0) and the label "No Data".
\<close>

theorem negative_is_no_data:
  assumes "v < 0"
  shows "get_color v = ''#D3D3D3'' \<and> get_color v = get_color 0 \<and> get_category v = ''No Data''"
  using assms by (simp add: get_color_def get_category_def)

theorem negative_is_no_data_witness:
  "(-2.5::real) < 0 \<and> get_color (-2.5) = ''#D3D3D3'' \<and> get_color (-2.5) = get_color 0
   \<and> get_category (-2.5) = ''No Data''"
proof -
  have h: "(-2.5::real) < 0" by simp
  show ?thesis using h negative_is_no_data [OF h] by blast
qed

subsection \<open>Identity normalisation\<close>

lemma of_char_lt_256: "(of_char c :: nat) < 256"
  by (metis UNIV_I range_nat_of_char atLeastLessThan_iff image_eqI)

lemma char_upper_idem: "char_upper (char_upper c) = char_upper c"
  using of_char_lt_256 [of c] by (auto simp: char_upper_def Let_def)

lemma isspace_char_upper: "isspace (char_upper c) = isspace c"
  using of_char_lt_256 [of c] by (auto simp: char_upper_def isspace_def Let_def)

lemma str_upper_idem: "str_upper (str_upper s) = str_upper s"
  by (simp add: str_upper_def char_upper_idem)

lemma dropWhile_isspace_upper:
  "dropWhile isspace (str_upper s) = str_upper (dropWhile isspace s)"
  by (induction s) (simp_all add: str_upper_def isspace_char_upper)

lemma rev_str_upper: "rev (str_upper s) = str_upper (rev s)"
  by (simp add: str_upper_def rev_map)

lemma str_strip_upper: "str_strip (str_upper s) = str_upper (str_strip s)"
  by (simp add: str_strip_def dropWhile_isspace_upper rev_str_upper)

lemma last_dropWhile_keep: "dropWhile P xs \<noteq> [] \<Longrightarrow> last (dropWhile P xs) = last xs"
  by (induction xs) (auto split: if_splits)

text \<open>A stripped string starts and ends with a character that is not whitespace.\<close>

lemma str_strip_idem: "str_strip (str_strip s) = str_strip s"
proof -
  define a where "a = dropWhile isspace s"
  define b where "b = dropWhile isspace (rev a)"
  have t: "str_strip s = rev b"
    by (simp add: str_strip_def a_def b_def)
  have front: "dropWhile isspace (rev b) = rev b"
  proof (cases "b = []")
    case True
    then show ?thesis by simp
  next
    case False
    then have "last b = last (rev a)"
      unfolding b_def by (rule last_dropWhile_keep)
    moreover from False have "a \<noteq> []"
      by (auto simp: b_def)
    ultimately have "last b = hd a"
      by (simp add: last_rev)
    moreover have "\<not> isspace (hd a)"
      using \<open>a \<noteq> []\<close> unfolding a_def by (rule hd_dropWhile)
    ultimately have "\<not> isspace (hd (rev b))"
      using False by (simp add: hd_rev)
    then show ?thesis
      by (simp add: dropWhile_eq_self_iff)
  qed
  have rear: "dropWhile isspace b = b"
    by (simp add: b_def)
  show ?thesis
    unfolding t by (simp add: str_strip_def front rear)
qed

lemma strip_upper_idem: "strip_upper (strip_upper s) = strip_upper s"
  by (simp add: strip_upper_def str_strip_upper str_strip_idem str_upper_idem)

lemma targets_fixed:
  "strip_upper ''AHMADNAGAR'' = ''AHMADNAGAR''"
  "strip_upper ''AURANGABAD'' = ''AURANGABAD''"
  "strip_upper ''OSMANABAD'' = ''OSMANABAD''"
  "strip_upper ''RAIGARH'' = ''RAIGARH''"
  "strip_upper ''SOLAPUR'' = ''SOLAPUR''"
  "strip_upper ''BID'' = ''BID''"
  "strip_upper ''GOA'' = ''GOA''"
  by code_simp+

lemma name_mapping_range:
  "snd ` set name_mapping =
     {''AHMADNAGAR'', ''AURANGABAD'', ''OSMANABAD'', ''RAIGARH'', ''SOLAPUR'', ''BID''}"
  unfolding name_mapping_def by (simp add: insert_commute)

lemma name_mapping_targets:
  assumes "map_of name_mapping u = Some t"
  shows "t \<in> snd ` set name_mapping"
proof -
  from assms have "(u, t) \<in> set name_mapping"
    by (rule map_of_SomeD)
  then show ?thesis
    by force
qed

lemma goa_mapping_targets:
  assumes "map_of goa_mapping u = Some t"
  shows "t = ''GOA''"
proof -
  from assms have "(u, t) \<in> set goa_mapping"
    by (rule map_of_SomeD)
  then show ?thesis
    by (simp add: goa_mapping_def)
qed

lemma targets_not_keys:
  "map_of name_mapping ''AHMADNAGAR'' = None"
  "map_of name_mapping ''AURANGABAD'' = None"
  "map_of name_mapping ''OSMANABAD'' = None"
  "map_of name_mapping ''RAIGARH'' = None"
  "map_of name_mapping ''SOLAPUR'' = None"
  "map_of name_mapping ''BID'' = None"
  "map_of name_mapping ''GOA'' = None"
  "map_of goa_mapping ''AHMADNAGAR'' = None"
  "map_of goa_mapping ''AURANGABAD'' = None"
  "map_of goa_mapping ''OSMANABAD'' = None"
  "map_of goa_mapping ''RAIGARH'' = None"
  "map_of goa_mapping ''SOLAPUR'' = None"
  "map_of goa_mapping ''BID'' = None"
  "map_of goa_mapping ''GOA'' = None"
  by (simp_all add: name_mapping_def goa_mapping_def)

lemma name_mapping_target_not_key:
  assumes "t \<in> snd ` set name_mapping"
  shows "map_of name_mapping t = None \<and> strip_upper t = t \<and> map_of goa_mapping t = None"
  using assms targets_not_keys targets_fixed unfolding name_mapping_range by blast

lemma replace_values_None: "map_of m u = None \<Longrightarrow> replace_values m u = u"
  by (simp add: replace_values_def)

lemma replace_values_Some: "map_of m u = Some t \<Longrightarrow> replace_values m u = t"
  by (simp add: replace_values_def)

lemma normalize_district_target:
  assumes "t \<in> snd ` set name_mapping"
  shows "normalize_district t = t"
proof -
  from name_mapping_target_not_key [OF assms]
  have k: "map_of name_mapping t = None" and f: "strip_upper t = t" by blast+
  show ?thesis
    unfolding normalize_district_def f using k by (rule replace_values_None)
qed

lemma normalize_goa_target:
  assumes "t \<in> snd ` set name_mapping \<or> t = ''GOA''"
  shows "normalize_goa t = t"
proof -
  have kf: "map_of goa_mapping t = None \<and> strip_upper t = t"
  proof (cases "t = ''GOA''")
    case True
    show ?thesis
      unfolding True using targets_not_keys(14) targets_fixed(7) by (rule conjI)
  next
    case False
    with assms have "t \<in> snd ` set name_mapping"
      by simp
    from name_mapping_target_not_key [OF this] show ?thesis
      by simp
  qed
  then have k: "map_of goa_mapping t = None" and f: "strip_upper t = t"
    by simp_all
  show ?thesis
    unfolding normalize_goa_def f using k by (rule replace_values_None)
qed

lemma normalize_district_idem: "normalize_district (normalize_district s) = normalize_district s"
proof (cases "map_of name_mapping (strip_upper s)")
  case None
  then have n: "normalize_district s = strip_upper s"
    unfolding normalize_district_def by (rule replace_values_None)
  have "normalize_district (strip_upper s) = strip_upper s"
    unfolding normalize_district_def strip_upper_idem using None by (rule replace_values_None)
  then show ?thesis
    unfolding n .
next
  case (Some t)
  then have n: "normalize_district s = t"
    unfolding normalize_district_def by (rule replace_values_Some)
  have "normalize_district t = t"
    using name_mapping_targets [OF Some] by (rule normalize_district_target)
  then show ?thesis
    unfolding n .
qed

lemma normalize_goa_idem: "normalize_goa (normalize_goa s) = normalize_goa s"
proof (cases "map_of goa_mapping (strip_upper s)")
  case None
  then have n: "normalize_goa s = strip_upper s"
    unfolding normalize_goa_def by (rule replace_values_None)
  have "normalize_goa (strip_upper s) = strip_upper s"
    unfolding normalize_goa_def strip_upper_idem using None by (rule replace_values_None)
  then show ?thesis
    unfolding n .
next
  case (Some t)
  then have n: "normalize_goa s = t"
    unfolding normalize_goa_def by (rule replace_values_Some)
  have "t = ''GOA''"
    using Some by (rule goa_mapping_targets)
  then have "t \<in> snd ` set name_mapping \<or> t = ''GOA''"
    by (rule disjI2)
  then have "normalize_goa t = t"
    by (rule normalize_goa_target)
  then show ?thesis
    unfolding n .
qed

lemma alias_normalize:
  assumes "t \<in> snd ` set name_mapping" and "alias_of t a"
  shows "normalize_district a = t"
proof -
  from assms(2) consider "strip_upper a = t" | "map_of name_mapping (strip_upper a) = Some t"
    unfolding alias_of_def by blast
  then show ?thesis
  proof cases
    case 1
    from name_mapping_target_not_key [OF assms(1)]
    have "map_of name_mapping t = None" by blast
    then show ?thesis
      unfolding normalize_district_def 1 by (rule replace_values_None)
  next
    case 2
    then show ?thesis
      unfolding normalize_district_def by (rule replace_values_Some)
  qed
qed

text \<open>
  C3. Two raw labels that are aliases of the same district of the alias table (each is,
  once trimmed and uppercased, the canonical name or a key mapped to it) normalise to the
  same key, the canonical name. A label whose trimmed, uppercased form is no key of the
  table passes through trimmed and uppercased. The normaliser is a total function.
\<close>

theorem aliases_normalize_equal:
  assumes "t \<in> snd ` set name_mapping" and "alias_of t a" and "alias_of t b"
  shows "normalize_district a = normalize_district b \<and> normalize_district a = t
       \<and> (map_of name_mapping (strip_upper s) = None
            \<longrightarrow> normalize_district s = strip_upper s)"
proof -
  have a: "normalize_district a = t"
    using assms(1) assms(2) by (rule alias_normalize)
  have b: "normalize_district b = t"
    using assms(1) assms(3) by (rule alias_normalize)
  have "map_of name_mapping (strip_upper s) = None
        \<longrightarrow> normalize_district s = strip_upper s"
    unfolding normalize_district_def by (rule impI) (rule replace_values_None)
  with a b show ?thesis
    by simp
qed

theorem aliases_normalize_equal_witness:
  "''AHMADNAGAR'' \<in> snd ` set name_mapping
   \<and> alias_of ''AHMADNAGAR'' ''Ahilyanagar'' \<and> alias_of ''AHMADNAGAR'' '' AHMADNAGAR''
   \<and> map_of name_mapping (strip_upper ''  Pune '') = None
   \<and> normalize_district ''Ahilyanagar'' = normalize_district '' AHMADNAGAR''
   \<and> normalize_district ''Ahilyanagar'' = ''AHMADNAGAR''
   \<and> normalize_district ''  Pune '' = ''PUNE''"
proof -
  have t: "''AHMADNAGAR'' \<in> snd ` set name_mapping"
    unfolding name_mapping_range by simp
  have a: "alias_of ''AHMADNAGAR'' ''Ahilyanagar''"
    by code_simp
  have b: "alias_of ''AHMADNAGAR'' '' AHMADNAGAR''"
    by code_simp
  have s: "strip_upper ''  Pune '' = ''PUNE''"
    by code_simp
  have n: "map_of name_mapping (strip_upper ''  Pune '') = None"
    unfolding s by (simp add: name_mapping_def)
  note th = aliases_normalize_equal [OF t a b, of "''  Pune ''"]
  from th n have "normalize_district ''  Pune '' = strip_upper ''  Pune ''"
    by blast
  then have p: "normalize_district ''  Pune '' = ''PUNE''"
    unfolding s .
  from th t a b n p show ?thesis
    by blast
qed

text \<open>
  C9. Each normalisation is idempotent: the measurement key, the supplementary
  geometry key and the plain trim-and-uppercase of the primary geometry. Every target of
  the two alias tables is a fixed point of all three.
\<close>

theorem normalization_idempotent:
  "normalize_district (normalize_district s) = normalize_district s
   \<and> normalize_goa (normalize_goa s) = normalize_goa s
   \<and> strip_upper (strip_upper s) = strip_upper s
   \<and> list_all (\<lambda>t. normalize_district t = t \<and> normalize_goa t = t \<and> strip_upper t = t)
        (map snd name_mapping @ map snd goa_mapping)"
proof -
  have fixed: "normalize_district t = t \<and> normalize_goa t = t \<and> strip_upper t = t"
    if "t \<in> snd ` set name_mapping \<or> t = ''GOA''" for t
  proof -
    have d: "normalize_district t = t"
    proof (cases "t = ''GOA''")
      case True
      show ?thesis
        unfolding True normalize_district_def targets_fixed(7)
        using targets_not_keys(7) by (rule replace_values_None)
    next
      case False
      with that show ?thesis by (simp add: normalize_district_target)
    qed
    have "strip_upper t = t"
      using that name_mapping_target_not_key targets_fixed(7) by blast
    with d normalize_goa_target [OF that] show ?thesis by simp
  qed
  have "set (map snd name_mapping @ map snd goa_mapping)
      \<subseteq> {t. t \<in> snd ` set name_mapping \<or> t = ''GOA''}"
    by (auto simp: goa_mapping_def)
  then have "list_all (\<lambda>t. normalize_district t = t \<and> normalize_goa t = t \<and> strip_upper t = t)
        (map snd name_mapping @ map snd goa_mapping)"
    unfolding list_all_iff using fixed by blast
  then show ?thesis
    using normalize_district_idem normalize_goa_idem strip_upper_idem by simp
qed

subsection \<open>Aggregation and the district split\<close>

lemma rain_agg_keys: "map fst (rain_agg df) = sort (remdups (map fst df))"
  by (simp add: rain_agg_def comp_def)

lemma rain_agg_distinct: "distinct (map fst (rain_agg df))"
  unfolding rain_agg_keys by simp

lemma rain_agg_dom: "fst ` set (rain_agg df) = fst ` set df"
proof -
  have "fst ` set (rain_agg df) = set (map fst (rain_agg df))"
    by simp
  also have "\<dots> = fst ` set df"
    unfolding rain_agg_keys by simp
  finally show ?thesis .
qed

lemma rain_agg_lookup:
  "map_of (rain_agg df) d =
     (if d \<in> fst ` set df then Some (round1 (mean (group_values d df))) else None)"
proof -
  have "map_of (rain_agg df) =
      (Some \<circ> (\<lambda>d. round1 (mean (group_values d df)))) |` set (sort (remdups (map fst df)))"
    unfolding rain_agg_def by (rule map_of_map_restrict)
  then show ?thesis
    by (simp add: restrict_map_def)
qed

lemma filter_key_empty: "filter (\<lambda>r. fst r = p) df = [] \<longleftrightarrow> p \<notin> fst ` set df"
  by (induction df) auto

lemma split_rows_append:
  "(if p \<in> set (map fst df)
    then let row = filter (\<lambda>r. fst r = p) df in
         if row \<noteq> [] then df @ map (\<lambda>r. (c, snd r)) row else df
    else df)
   = df @ map (\<lambda>r. (c, snd r)) (filter (\<lambda>r. fst r = p) df)"
  using filter_key_empty [of p df] by (auto simp: Let_def)

lemma mumbai_split_append:
  "mumbai_split df =
     df @ map (\<lambda>r. (''MUMBAI SUBURBAN'', snd r)) (filter (\<lambda>r. fst r = ''MUMBAI'') df)"
  unfolding mumbai_split_def by (rule split_rows_append)

lemma group_values_append: "group_values d (xs @ ys) = group_values d xs @ group_values d ys"
  by (simp add: group_values_def)

lemma group_values_renamed:
  "group_values d (map (\<lambda>r. (k, snd r)) xs) = (if d = k then map snd xs else [])"
  by (induction xs) (simp_all add: group_values_def)

lemma group_values_split:
  "group_values d (mumbai_split df) =
     group_values d df @ (if d = ''MUMBAI SUBURBAN'' then group_values ''MUMBAI'' df else [])"
proof -
  have "group_values d (map (\<lambda>r. (''MUMBAI SUBURBAN'', snd r)) (filter (\<lambda>r. fst r = ''MUMBAI'') df))
      = (if d = ''MUMBAI SUBURBAN'' then group_values ''MUMBAI'' df else [])"
    unfolding group_values_renamed by (simp add: group_values_def)
  then show ?thesis
    unfolding mumbai_split_append group_values_append by simp
qed

lemma group_values_empty: "d \<notin> fst ` set df \<Longrightarrow> group_values d df = []"
  by (auto simp: group_values_def filter_empty_conv)

lemma renamed_keys:
  "fst ` set (map (\<lambda>r. (c, snd r)) (filter (\<lambda>r. fst r = p) df))
     = (if p \<in> fst ` set df then {c} else {})"
  by (induction df) (auto simp: filter_key_empty)

lemma mumbai_split_keys:
  "fst ` set (mumbai_split df) =
     fst ` set df \<union> (if ''MUMBAI'' \<in> fst ` set df then {''MUMBAI SUBURBAN''} else {})"
  unfolding mumbai_split_append set_append image_Un renamed_keys ..

lemma mumbai_split_frame:
  assumes "d \<noteq> ''MUMBAI SUBURBAN''"
  shows "map_of (rain_agg (mumbai_split df)) d = map_of (rain_agg df) d"
proof -
  have v: "group_values d (mumbai_split df) = group_values d df"
    unfolding group_values_split using assms by simp
  have k: "d \<in> fst ` set (mumbai_split df) \<longleftrightarrow> d \<in> fst ` set df"
    unfolding mumbai_split_keys using assms by simp
  show ?thesis
    unfolding rain_agg_lookup v k ..
qed

lemma mumbai_split_absent:
  assumes "''MUMBAI'' \<notin> fst ` set df"
  shows "mumbai_split df = df"
proof -
  have "filter (\<lambda>r. fst r = ''MUMBAI'') df = []"
    using assms unfolding filter_key_empty .
  then show ?thesis
    unfolding mumbai_split_append by simp
qed

text \<open>
  C10. The district split only appends rows, all of them under MUMBAI SUBURBAN: for
  every other district the aggregated value (the mean, rounded to one decimal) is the
  same with and without the split. When no row is keyed MUMBAI the table is unchanged,
  so that MUMBAI SUBURBAN is aggregated only if the measurements already name it.
\<close>

theorem split_only_adds_rows:
  "(d \<noteq> ''MUMBAI SUBURBAN''
      \<longrightarrow> map_of (rain_agg (mumbai_split df)) d = map_of (rain_agg df) d)
   \<and> (\<exists>extra. mumbai_split df = df @ extra \<and> fst ` set extra \<subseteq> {''MUMBAI SUBURBAN''})
   \<and> (''MUMBAI'' \<notin> fst ` set df
      \<longrightarrow> mumbai_split df = df
        \<and> (''MUMBAI SUBURBAN'' \<in> fst ` set (rain_agg (mumbai_split df))
             \<longleftrightarrow> ''MUMBAI SUBURBAN'' \<in> fst ` set df))"
proof -
  have "\<exists>extra. mumbai_split df = df @ extra \<and> fst ` set extra \<subseteq> {''MUMBAI SUBURBAN''}"
  proof (intro exI conjI)
    show "mumbai_split df =
        df @ map (\<lambda>r. (''MUMBAI SUBURBAN'', snd r)) (filter (\<lambda>r. fst r = ''MUMBAI'') df)"
      by (rule mumbai_split_append)
    show "fst ` set (map (\<lambda>r. (''MUMBAI SUBURBAN'', snd r)) (filter (\<lambda>r. fst r = ''MUMBAI'') df))
        \<subseteq> {''MUMBAI SUBURBAN''}"
      unfolding renamed_keys by simp
  qed
  moreover have "''MUMBAI SUBURBAN'' \<in> fst ` set (rain_agg (mumbai_split df))
             \<longleftrightarrow> ''MUMBAI SUBURBAN'' \<in> fst ` set df"
    if "''MUMBAI'' \<notin> fst ` set df"
    unfolding mumbai_split_absent [OF that] rain_agg_dom ..
  ultimately show ?thesis
    using mumbai_split_frame mumbai_split_absent by blast
qed

lemma round1_examples:
  "round1 10 = 10" "round1 15 = 15" "round1 4 = 4" "round1 12.3 = 12.3" "round1 0 = 0"
  "round1 70 = 70"
  by (simp_all add: round1_def rint_def Let_def)

lemma normalize_examples:
  "normalize_district ''Mumbai'' = ''MUMBAI''"
  "normalize_district ''Mumbai Suburban'' = ''MUMBAI SUBURBAN''"
  "normalize_district ''Pune'' = ''PUNE''"
  "normalize_district ''Ahilyanagar'' = ''AHMADNAGAR''"
  by code_simp+

theorem split_only_adds_rows_witness:
  "''PUNE'' \<noteq> ''MUMBAI SUBURBAN''
   \<and> map_of (rain_agg (mumbai_split [(''MUMBAI'', 10), (''PUNE'', 4)])) ''PUNE''
       = map_of (rain_agg [(''MUMBAI'', 10), (''PUNE'', 4)]) ''PUNE''
   \<and> map_of (rain_agg [(''MUMBAI'', 10), (''PUNE'', 4)]) ''PUNE'' = Some 4
   \<and> ''MUMBAI'' \<notin> fst ` set [(''PUNE'', 4::real)]
   \<and> mumbai_split [(''PUNE'', 4::real)] = [(''PUNE'', 4)]"
proof -
  have h1: "''PUNE'' \<noteq> ''MUMBAI SUBURBAN''"
    by simp
  have h2: "''MUMBAI'' \<notin> fst ` set [(''PUNE'', 4::real)]"
    by simp
  have e1: "map_of (rain_agg (mumbai_split [(''MUMBAI'', 10), (''PUNE'', 4)])) ''PUNE''
       = map_of (rain_agg [(''MUMBAI'', 10), (''PUNE'', 4)]) ''PUNE''"
    using split_only_adds_rows [of "''PUNE''" "[(''MUMBAI'', 10), (''PUNE'', 4)]"] h1 by blast
  have e2: "mumbai_split [(''PUNE'', 4::real)] = [(''PUNE'', 4)]"
    using split_only_adds_rows [of "''PUNE''" "[(''PUNE'', 4)]"] h2 by blast
  have e3: "map_of (rain_agg [(''MUMBAI'', 10), (''PUNE'', 4)]) ''PUNE'' = Some 4"
    unfolding rain_agg_lookup by (simp add: group_values_def mean_def round1_examples)
  show ?thesis
    by (intro conjI h1 h2 e1 e2 e3)
qed

text \<open>
  C5 (as stated, refuted). MUMBAI is present, yet the aggregated value of MUMBAI
  SUBURBAN differs from the parent's: the measurements already have a row for MUMBAI
  SUBURBAN, the duplicated rows of MUMBAI are averaged with it, and the result is 15
  against the parent's 10.
\<close>

theorem mumbai_suburban_counterexample:
  "''MUMBAI'' \<in> fst ` set (prepare_rows parse_decimal
        [\<lparr>DISTRICT = ''Mumbai'', RF = Some (JNum 10)\<rparr>,
         \<lparr>DISTRICT = ''Mumbai Suburban'', RF = Some (JNum 20)\<rparr>])
   \<and> map_of (rain_agg (mumbai_split (prepare_rows parse_decimal
        [\<lparr>DISTRICT = ''Mumbai'', RF = Some (JNum 10)\<rparr>,
         \<lparr>DISTRICT = ''Mumbai Suburban'', RF = Some (JNum 20)\<rparr>]))) ''MUMBAI'' = Some 10
   \<and> map_of (rain_agg (mumbai_split (prepare_rows parse_decimal
        [\<lparr>DISTRICT = ''Mumbai'', RF = Some (JNum 10)\<rparr>,
         \<lparr>DISTRICT = ''Mumbai Suburban'', RF = Some (JNum 20)\<rparr>]))) ''MUMBAI SUBURBAN'' = Some 15"
proof -
  have p: "prepare_rows parse_decimal
        [\<lparr>DISTRICT = ''Mumbai'', RF = Some (JNum 10)\<rparr>,
         \<lparr>DISTRICT = ''Mumbai Suburban'', RF = Some (JNum 20)\<rparr>]
      = [(''MUMBAI'', 10), (''MUMBAI SUBURBAN'', 20)]"
    by (simp add: prepare_rows_def to_numeric_def fillna_def normalize_examples)
  show ?thesis
    unfolding p rain_agg_lookup group_values_split mumbai_split_keys
    by (simp add: group_values_def mean_def round1_examples)
qed

subsection \<open>The merge\<close>

lemma filter_distinct_lookup:
  assumes "distinct (map fst agg)"
  shows "filter (\<lambda>r. fst r = k) agg = (case map_of agg k of None \<Rightarrow> [] | Some v \<Rightarrow> [(k, v)])"
  using assms
proof (induction agg)
  case Nil
  then show ?case by simp
next
  case (Cons r agg)
  obtain a b where r: "r = (a, b)"
    by (cases r)
  show ?case
  proof (cases "a = k")
    case True
    with Cons.prems r have "k \<notin> fst ` set agg"
      by simp
    then have "filter (\<lambda>r. fst r = k) agg = []"
      unfolding filter_key_empty .
    with True r show ?thesis
      by simp
  next
    case False
    with Cons r show ?thesis
      by simp
  qed
qed

lemma merge_left_distinct:
  assumes "distinct (map fst agg)"
  shows "merge_left gdf agg = map (\<lambda>g. (g, map_of agg (DISTRICT_NORM g))) gdf"
proof (induction gdf)
  case Nil
  then show ?case by simp
next
  case (Cons g gdf)
  have "(let ms = filter (\<lambda>r. fst r = DISTRICT_NORM g) agg in
          if ms = [] then [(g, None)] else map (\<lambda>r. (g, Some (snd r))) ms)
        = [(g, map_of agg (DISTRICT_NORM g))]"
    unfolding filter_distinct_lookup [OF assms] by (simp split: option.split)
  with Cons show ?case
    by simp
qed

lemma reconcile_distinct:
  assumes "distinct (map fst agg)"
  shows "reconcile gdf agg = map (\<lambda>g. assemble (g, map_of agg (DISTRICT_NORM g))) gdf"
  unfolding reconcile_def merge_left_distinct [OF assms] by (simp add: comp_def)

lemma assemble_sel:
  "native_label (assemble (g, v)) = native_label g"
  "DISTRICT_NORM (assemble (g, v)) = DISTRICT_NORM g"
  "RAINFALL_MM (assemble (g, v)) = fillna 0 v"
  "CATEGORY (assemble (g, v)) = get_category (fillna 0 v)"
  "COLOR (assemble (g, v)) = get_color (fillna 0 v)"
  by (simp_all add: assemble_def Let_def)

text \<open>
  C6. The merge is total over the geometry: against aggregated measurements with
  unique district keys the merged table has exactly one row per geometry feature, in
  order, and the value of a row is the value of the measurement with its key, or 0 when
  there is none. The aggregation always yields unique keys.
\<close>

theorem reconcile_total:
  assumes "distinct (map fst agg)"
  shows "length (reconcile geo agg) = length geo
       \<and> (\<forall>i<length geo.
             native_label (reconcile geo agg ! i) = native_label (geo ! i)
           \<and> DISTRICT_NORM (reconcile geo agg ! i) = DISTRICT_NORM (geo ! i)
           \<and> RAINFALL_MM (reconcile geo agg ! i)
               = (case map_of agg (DISTRICT_NORM (geo ! i)) of Some v \<Rightarrow> v | None \<Rightarrow> 0))
       \<and> distinct (map fst (rain_agg df))
       \<and> length (reconcile geo (rain_agg df)) = length geo"
proof -
  have len: "length (reconcile geo a) = length geo" if "distinct (map fst a)" for a
    unfolding reconcile_distinct [OF that] by simp
  have "RAINFALL_MM (reconcile geo agg ! i)
      = (case map_of agg (DISTRICT_NORM (geo ! i)) of Some v \<Rightarrow> v | None \<Rightarrow> 0)"
    if "i < length geo" for i
    unfolding reconcile_distinct [OF assms] using that
    by (simp add: assemble_sel fillna_def)
  moreover have "native_label (reconcile geo agg ! i) = native_label (geo ! i)
      \<and> DISTRICT_NORM (reconcile geo agg ! i) = DISTRICT_NORM (geo ! i)"
    if "i < length geo" for i
    unfolding reconcile_distinct [OF assms] using that
    by (simp add: assemble_sel)
  ultimately show ?thesis
    using len [OF assms] len [OF rain_agg_distinct] rain_agg_distinct by blast
qed

theorem reconcile_total_witness:
  "distinct (map fst [(''PUNE'', 4::real)])
   \<and> length (reconcile [\<lparr>native_label = ''Pune'', DISTRICT_NORM = ''PUNE''\<rparr>,
                        \<lparr>native_label = ''Xyz'', DISTRICT_NORM = ''XYZ''\<rparr>] [(''PUNE'', 4)]) = 2
   \<and> RAINFALL_MM (reconcile [\<lparr>native_label = ''Pune'', DISTRICT_NORM = ''PUNE''\<rparr>,
                        \<lparr>native_label = ''Xyz'', DISTRICT_NORM = ''XYZ''\<rparr>] [(''PUNE'', 4)] ! 0) = 4
   \<and> RAINFALL_MM (reconcile [\<lparr>native_label = ''Pune'', DISTRICT_NORM = ''PUNE''\<rparr>,
                        \<lparr>native_label = ''Xyz'', DISTRICT_NORM = ''XYZ''\<rparr>] [(''PUNE'', 4)] ! 1) = 0"
proof -
  define geo where "geo = [\<lparr>native_label = ''Pune'', DISTRICT_NORM = ''PUNE''\<rparr>,
                        \<lparr>native_label = ''Xyz'', DISTRICT_NORM = ''XYZ''\<rparr>]"
  have d: "distinct (map fst [(''PUNE'', 4::real)])"
    by simp
  note th = reconcile_total [OF d, of geo]
  have l: "length geo = 2"
    by (simp add: geo_def)
  from th l have e0: "length (reconcile geo [(''PUNE'', 4)]) = 2"
    by simp
  from th have "RAINFALL_MM (reconcile geo [(''PUNE'', 4)] ! 0)
      = (case map_of [(''PUNE'', 4::real)] (DISTRICT_NORM (geo ! 0)) of Some v \<Rightarrow> v | None \<Rightarrow> 0)"
    using l by simp
  then have e1: "RAINFALL_MM (reconcile geo [(''PUNE'', 4)] ! 0) = 4"
    by (simp add: geo_def)
  from th have "RAINFALL_MM (reconcile geo [(''PUNE'', 4)] ! 1)
      = (case map_of [(''PUNE'', 4::real)] (DISTRICT_NORM (geo ! 1)) of Some v \<Rightarrow> v | None \<Rightarrow> 0)"
    using l by simp
  then have e2: "RAINFALL_MM (reconcile geo [(''PUNE'', 4)] ! 1) = 0"
    by (simp add: geo_def)
  show ?thesis
    using d e0 e1 e2 unfolding geo_def by (intro conjI)
qed

lemma process_data_ok:
  assumes "has_rf_column data" and "find_district_col gdf0 = Some c"
  shows "snd (process_data parse (Some data) (Some gdf0) goa)
     = Some (reconcile (snd (merge_goa (normalize_main gdf0 c) (snd (load_goa goa))))
               (rain_agg (mumbai_split (prepare_rows parse data))), c)"
  using assms by (simp add: process_data_def Let_def)

lemma strip_upper_examples:
  "strip_upper ''Mumbai'' = ''MUMBAI''"
  "strip_upper ''Mumbai Suburban'' = ''MUMBAI SUBURBAN''"
  "strip_upper ''Pune'' = ''PUNE''"
  "strip_upper ''Xyz'' = ''XYZ''"
  "normalize_goa ''North Goa'' = ''GOA''"
  by code_simp+

lemma find_district_col_examples:
  "find_district_col [\<lparr>col_name = ''dtname'', col_dtype = ObjectDtype, col_values = vs\<rparr>]
     = Some ''dtname''"
  "find_district_col [\<lparr>col_name = ''NAME_2'', col_dtype = ObjectDtype, col_values = vs\<rparr>]
     = Some ''NAME_2''"
proof -
  have "str_lower ''dtname'' \<in> set (map str_lower potential_cols)"
    by code_simp
  then show "find_district_col [\<lparr>col_name = ''dtname'', col_dtype = ObjectDtype, col_values = vs\<rparr>]
     = Some ''dtname''"
    by (simp add: is_object_dtype_def)
  have "str_lower ''NAME_2'' \<in> set (map str_lower potential_cols)"
    by code_simp
  then show "find_district_col [\<lparr>col_name = ''NAME_2'', col_dtype = ObjectDtype, col_values = vs\<rparr>]
     = Some ''NAME_2''"
    by (simp add: is_object_dtype_def)
qed

lemma mumbai_scenario:
  assumes "parse ''12.3'' = Some 12.3"
  shows "snd (process_data parse
            (Some [\<lparr>DISTRICT = ''Mumbai'', RF = Some (JStr ''12.3'')\<rparr>])
            (Some [\<lparr>col_name = ''dtname'', col_dtype = ObjectDtype,
                    col_values = [''Mumbai'', ''Mumbai Suburban'']\<rparr>])
            GoaMissing)
       = Some ([\<lparr>native_label = ''Mumbai'', DISTRICT_NORM = ''MUMBAI'',
                  RAINFALL_MM = 12.3, CATEGORY = ''Moderate Rainfall'', COLOR = ''#FFFFE0''\<rparr>,
                \<lparr>native_label = ''Mumbai Suburban'', DISTRICT_NORM = ''MUMBAI SUBURBAN'',
                  RAINFALL_MM = 12.3, CATEGORY = ''Moderate Rainfall'', COLOR = ''#FFFFE0''\<rparr>],
               ''dtname'')"
proof -
  have rf: "has_rf_column [\<lparr>DISTRICT = ''Mumbai'', RF = Some (JStr ''12.3'')\<rparr>]"
    by (simp add: has_rf_column_def)
  have rows: "prepare_rows parse [\<lparr>DISTRICT = ''Mumbai'', RF = Some (JStr ''12.3'')\<rparr>]
      = [(''MUMBAI'', 12.3)]"
    using assms by (simp add: prepare_rows_def to_numeric_def fillna_def normalize_examples)
  have geo: "snd (merge_goa (normalize_main
        [\<lparr>col_name = ''dtname'', col_dtype = ObjectDtype,
          col_values = [''Mumbai'', ''Mumbai Suburban'']\<rparr>] ''dtname'') (snd (load_goa GoaMissing)))
      = [\<lparr>native_label = ''Mumbai'', DISTRICT_NORM = ''MUMBAI''\<rparr>,
         \<lparr>native_label = ''Mumbai Suburban'', DISTRICT_NORM = ''MUMBAI SUBURBAN''\<rparr>]"
    by (simp add: merge_goa_def load_goa_def normalize_main_def column_values_def
        strip_upper_examples)
  have cls: "get_category 12.3 = ''Moderate Rainfall''" "get_color 12.3 = ''#FFFFE0''"
    by (simp_all add: get_category_def get_color_def)
  show ?thesis
    unfolding process_data_ok [OF rf find_district_col_examples(1)] rows geo
      reconcile_distinct [OF rain_agg_distinct] rain_agg_lookup group_values_split
      mumbai_split_keys
    by (simp add: group_values_def mean_def round1_examples assemble_def fillna_def cls)
qed

lemma split_lookup_parent:
  assumes "''MUMBAI'' \<in> fst ` set df"
  shows "map_of (rain_agg (mumbai_split df)) ''MUMBAI''
     = Some (round1 (mean (group_values ''MUMBAI'' df)))"
proof -
  have "map_of (rain_agg (mumbai_split df)) ''MUMBAI'' = map_of (rain_agg df) ''MUMBAI''"
    by (rule mumbai_split_frame) simp
  then show ?thesis
    unfolding rain_agg_lookup [of df] using assms by simp
qed

lemma split_lookup_derived:
  assumes "''MUMBAI'' \<in> fst ` set df"
  shows "map_of (rain_agg (mumbai_split df)) ''MUMBAI SUBURBAN''
     = Some (round1 (mean (group_values ''MUMBAI SUBURBAN'' df @ group_values ''MUMBAI'' df)))"
  unfolding rain_agg_lookup group_values_split mumbai_split_keys using assms by simp

text \<open>
  C5 (amended). When MUMBAI is among the normalised measurement rows and no row is
  keyed MUMBAI SUBURBAN, the aggregated output has an entry for MUMBAI SUBURBAN whose
  value is the parent's. For the single record Mumbai with the text 12.3, read as the
  number 12.3, both geometry features get the value 12.3 and the label of MODERATE.
\<close>

theorem mumbai_suburban_added:
  assumes "''MUMBAI'' \<in> fst ` set df" and "''MUMBAI SUBURBAN'' \<notin> fst ` set df"
  shows "map_of (rain_agg (mumbai_split df)) ''MUMBAI SUBURBAN''
           = map_of (rain_agg (mumbai_split df)) ''MUMBAI''
       \<and> map_of (rain_agg (mumbai_split df)) ''MUMBAI''
           = Some (round1 (mean (group_values ''MUMBAI'' df)))
       \<and> (parse ''12.3'' = Some 12.3 \<longrightarrow>
            snd (process_data parse
              (Some [\<lparr>DISTRICT = ''Mumbai'', RF = Some (JStr ''12.3'')\<rparr>])
              (Some [\<lparr>col_name = ''dtname'', col_dtype = ObjectDtype,
                      col_values = [''Mumbai'', ''Mumbai Suburban'']\<rparr>])
              GoaMissing)
            = Some ([\<lparr>native_label = ''Mumbai'', DISTRICT_NORM = ''MUMBAI'',
                  RAINFALL_MM = 12.3, CATEGORY = ''Moderate Rainfall'', COLOR = ''#FFFFE0''\<rparr>,
                \<lparr>native_label = ''Mumbai Suburban'', DISTRICT_NORM = ''MUMBAI SUBURBAN'',
                  RAINFALL_MM = 12.3, CATEGORY = ''Moderate Rainfall'', COLOR = ''#FFFFE0''\<rparr>],
               ''dtname''))"
proof -
  have "group_values ''MUMBAI SUBURBAN'' df = []"
    using assms(2) by (rule group_values_empty)
  then have "map_of (rain_agg (mumbai_split df)) ''MUMBAI SUBURBAN''
      = Some (round1 (mean (group_values ''MUMBAI'' df)))"
    unfolding split_lookup_derived [OF assms(1)] by simp
  with split_lookup_parent [OF assms(1)] mumbai_scenario show ?thesis
    by simp
qed

lemma parse_decimal_examples:
  "parse_decimal ''12.3'' = Some 12.3"
  "parse_decimal ''N/A'' = None"
  "parse_decimal ''70'' = Some 70"
  by (simp_all add: parse_decimal_def parse_unsigned_def digit_val_def Let_def)

theorem mumbai_suburban_added_witness:
  "''MUMBAI'' \<in> fst ` set [(''MUMBAI'', 12.3::real)]
   \<and> ''MUMBAI SUBURBAN'' \<notin> fst ` set [(''MUMBAI'', 12.3::real)]
   \<and> parse_decimal ''12.3'' = Some 12.3
   \<and> map_of (rain_agg (mumbai_split [(''MUMBAI'', 12.3)])) ''MUMBAI SUBURBAN'' = Some 12.3
   \<and> map_of (rain_agg (mumbai_split [(''MUMBAI'', 12.3)])) ''MUMBAI'' = Some 12.3
   \<and> snd (process_data parse_decimal
              (Some [\<lparr>DISTRICT = ''Mumbai'', RF = Some (JStr ''12.3'')\<rparr>])
              (Some [\<lparr>col_name = ''dtname'', col_dtype = ObjectDtype,
                      col_values = [''Mumbai'', ''Mumbai Suburban'']\<rparr>])
              GoaMissing)
       = Some ([\<lparr>native_label = ''Mumbai'', DISTRICT_NORM = ''MUMBAI'',
                  RAINFALL_MM = 12.3, CATEGORY = ''Moderate Rainfall'', COLOR = ''#FFFFE0''\<rparr>,
                \<lparr>native_label = ''Mumbai Suburban'', DISTRICT_NORM = ''MUMBAI SUBURBAN'',
                  RAINFALL_MM = 12.3, CATEGORY = ''Moderate Rainfall'', COLOR = ''#FFFFE0''\<rparr>],
               ''dtname'')"
proof -
  have h1: "''MUMBAI'' \<in> fst ` set [(''MUMBAI'', 12.3::real)]"
    by simp
  have h2: "''MUMBAI SUBURBAN'' \<notin> fst ` set [(''MUMBAI'', 12.3::real)]"
    by simp
  have h3: "parse_decimal ''12.3'' = Some 12.3"
    by (rule parse_decimal_examples)
  note th = mumbai_suburban_added [OF h1 h2, of parse_decimal]
  have v: "round1 (mean (group_values ''MUMBAI'' [(''MUMBAI'', 12.3)])) = 12.3"
    by (simp add: group_values_def mean_def round1_examples)
  from th have e2: "map_of (rain_agg (mumbai_split [(''MUMBAI'', 12.3)])) ''MUMBAI'' = Some 12.3"
    unfolding v by (rule conjunct2 [THEN conjunct1])
  from th have e1: "map_of (rain_agg (mumbai_split [(''MUMBAI'', 12.3)])) ''MUMBAI SUBURBAN''
      = Some 12.3"
    unfolding e2 by (rule conjunct1)
  from th [THEN conjunct2, THEN conjunct2, THEN mp, OF h3]
  show ?thesis
    by (intro conjI h1 h2 h3 e1 e2)
qed

subsection \<open>Column discovery\<close>

lemma of_char_char_lower:
  "(of_char (char_lower c) :: nat) =
     (if 65 \<le> (of_char c :: nat) \<and> (of_char c :: nat) \<le> 90 then of_char c + 32 else of_char c)"
  using of_char_lt_256 [of c] by (simp add: char_lower_def Let_def)

lemma lower_code_eq:
  fixes m n :: nat
  shows "((if 65 \<le> m \<and> m \<le> 90 then m + 32 else m)
          = (if 65 \<le> n \<and> n \<le> 90 then n + 32 else n))
     = (m = n \<or> (65 \<le> m \<and> m \<le> 90 \<and> n = m + 32) \<or> (65 \<le> n \<and> n \<le> 90 \<and> m = n + 32))"
  by auto

lemma char_lower_eq_iff: "char_lower c = char_lower d \<longleftrightarrow> same_letter c d"
proof -
  have "char_lower c = char_lower d
      \<longleftrightarrow> (of_char (char_lower c) :: nat) = of_char (char_lower d)"
    by simp
  also have "\<dots> \<longleftrightarrow> ((of_char c :: nat) = of_char d
      \<or> (65 \<le> (of_char c :: nat) \<and> (of_char c :: nat) \<le> 90 \<and> (of_char d :: nat) = of_char c + 32)
      \<or> (65 \<le> (of_char d :: nat) \<and> (of_char d :: nat) \<le> 90 \<and> (of_char c :: nat) = of_char d + 32))"
    unfolding of_char_char_lower by (rule lower_code_eq)
  also have "\<dots> \<longleftrightarrow> same_letter c d"
    unfolding same_letter_def Let_def by simp
  finally show ?thesis .
qed

lemma map_eq_iff_list_all2:
  "map f xs = map f ys \<longleftrightarrow> list_all2 (\<lambda>x y. f x = f y) xs ys"
proof (induction xs arbitrary: ys)
  case Nil
  then show ?case by simp
next
  case (Cons x xs)
  then show ?case by (cases ys) simp_all
qed

lemma str_lower_eq_iff: "str_lower a = str_lower b \<longleftrightarrow> same_name a b"
  unfolding str_lower_def same_name_def map_eq_iff_list_all2 char_lower_eq_iff ..

lemma candidate_iff:
  "str_lower a \<in> set (map str_lower ps) \<longleftrightarrow> list_ex (same_name a) ps"
  by (induction ps) (simp_all add: str_lower_eq_iff)

lemma loop_test:
  "(str_lower (col_name c) \<in> set (map str_lower potential_cols)
      \<and> (is_string_dtype c \<or> is_object_dtype c)) = qualifies c"
  unfolding candidate_iff qualifies_def textual_def is_string_dtype_def is_object_dtype_def ..

lemma find_district_col_find:
  "find_district_col gdf = map_option col_name (find qualifies gdf)"
proof (induction gdf)
  case Nil
  then show ?case by simp
next
  case (Cons c gdf)
  show ?case
  proof (cases "qualifies c")
    case True
    then have "str_lower (col_name c) \<in> set (map str_lower potential_cols)"
      and "is_string_dtype c \<or> is_object_dtype c"
      unfolding loop_test [symmetric] by simp_all
    with True show ?thesis
      by simp
  next
    case False
    then have "\<not> (str_lower (col_name c) \<in> set (map str_lower potential_cols)
      \<and> (is_string_dtype c \<or> is_object_dtype c))"
      unfolding loop_test .
    with False Cons show ?thesis
      by auto
  qed
qed

lemma process_data_no_column:
  assumes "find_district_col gdf = None"
  shows "snd (process_data parse rain (Some gdf) goa) = None"
  using assms by (cases rain) (simp_all add: process_data_def Let_def)

lemma process_data_no_column_msg:
  assumes "find_district_col gdf = None" and "has_rf_column data"
  shows "last (fst (process_data parse (Some data) (Some gdf) goa)) = MsgErrorNoDistrictColMain"
  using assms by (simp add: process_data_def Let_def)

lemma main_aborted:
  assumes "snd (process_data parse rain geo goa) = None"
  shows "main render parse rain geo goa = (fst (process_data parse rain geo goa), [])"
  using assms by (cases "process_data parse rain geo goa") (simp add: main_def)

text \<open>
  C8. Column discovery returns the name of the first column, in the table's order, that
  qualifies: its name matches one of the candidate names case-insensitively (letter by
  letter, whatever the case of either name) and its dtype is textual (string or object).
  It returns nothing exactly when no column qualifies. For the primary geometry table
  the run then returns no result, its last message is the error that no district column
  was identified, and the main block calls no renderer, so no file is saved.
\<close>

theorem district_column_discovery:
  "find_district_col gdf = map_option col_name (find qualifies gdf)
   \<and> (find_district_col gdf = None \<longleftrightarrow> (\<forall>a\<in>set gdf. \<not> qualifies a))
   \<and> (find_district_col gdf = None
        \<longrightarrow> snd (process_data parse rain (Some gdf) goa) = None
          \<and> snd (main render parse rain (Some gdf) goa) = [])
   \<and> (find_district_col gdf = None \<and> has_rf_column data
        \<longrightarrow> last (fst (process_data parse (Some data) (Some gdf) goa))
              = MsgErrorNoDistrictColMain)"
proof -
  have "find_district_col gdf = None \<longleftrightarrow> (\<forall>a\<in>set gdf. \<not> qualifies a)"
    unfolding find_district_col_find by (auto simp: find_None_iff)
  moreover have "snd (process_data parse rain (Some gdf) goa) = None
      \<and> snd (main render parse rain (Some gdf) goa) = []"
    if "find_district_col gdf = None"
    using process_data_no_column [OF that] main_aborted [of parse rain "Some gdf" goa render]
    by simp
  ultimately show ?thesis
    using find_district_col_find process_data_no_column_msg by blast
qed

lemma candidate_examples:
  "list_ex (same_name ''DTNAME'') potential_cols"
  "list_ex (same_name ''Name'') potential_cols"
  "list_ex (same_name ''objectid'') potential_cols"
  "\<not> list_ex (same_name ''area'') potential_cols"
  by code_simp+

theorem district_column_discovery_witness:
  "find_district_col
     [\<lparr>col_name = ''objectid'', col_dtype = IntDtype, col_values = [''1'']\<rparr>,
      \<lparr>col_name = ''DTNAME'', col_dtype = ObjectDtype, col_values = [''Pune'']\<rparr>,
      \<lparr>col_name = ''Name'', col_dtype = StringDtype, col_values = [''PUNE'']\<rparr>]
     = Some ''DTNAME''
   \<and> find_district_col
     [\<lparr>col_name = ''objectid'', col_dtype = IntDtype, col_values = [''1'']\<rparr>,
      \<lparr>col_name = ''area'', col_dtype = ObjectDtype, col_values = [''Pune'']\<rparr>] = None
   \<and> snd (process_data parse_decimal (Some [\<lparr>DISTRICT = ''Pune'', RF = Some (JNum 4)\<rparr>])
       (Some [\<lparr>col_name = ''objectid'', col_dtype = IntDtype, col_values = [''1'']\<rparr>,
              \<lparr>col_name = ''area'', col_dtype = ObjectDtype, col_values = [''Pune'']\<rparr>])
       GoaMissing) = None
   \<and> snd (main (\<lambda>merged_gdf district_col_name. ([MsgDone], [OUTPUT_PNG, OUTPUT_SVG, OUTPUT_HTML]))
       parse_decimal (Some [\<lparr>DISTRICT = ''Pune'', RF = Some (JNum 4)\<rparr>])
       (Some [\<lparr>col_name = ''objectid'', col_dtype = IntDtype, col_values = [''1'']\<rparr>,
              \<lparr>col_name = ''area'', col_dtype = ObjectDtype, col_values = [''Pune'']\<rparr>])
       GoaMissing) = []
   \<and> last (fst (process_data parse_decimal (Some [\<lparr>DISTRICT = ''Pune'', RF = Some (JNum 4)\<rparr>])
       (Some [\<lparr>col_name = ''objectid'', col_dtype = IntDtype, col_values = [''1'']\<rparr>,
              \<lparr>col_name = ''area'', col_dtype = ObjectDtype, col_values = [''Pune'']\<rparr>])
       GoaMissing)) = MsgErrorNoDistrictColMain"
proof -
  define g1 where "g1 =
     [\<lparr>col_name = ''objectid'', col_dtype = IntDtype, col_values = [''1'']\<rparr>,
      \<lparr>col_name = ''DTNAME'', col_dtype = ObjectDtype, col_values = [''Pune'']\<rparr>,
      \<lparr>col_name = ''Name'', col_dtype = StringDtype, col_values = [''PUNE'']\<rparr>]"
  define g2 where "g2 =
     [\<lparr>col_name = ''objectid'', col_dtype = IntDtype, col_values = [''1'']\<rparr>,
      \<lparr>col_name = ''area'', col_dtype = ObjectDtype, col_values = [''Pune'']\<rparr>]"
  define data where "data = [\<lparr>DISTRICT = ''Pune'', RF = Some (JNum 4)\<rparr>]"
  define render :: "merged_row list \<Rightarrow> string \<Rightarrow> message list \<times> artifact list"
    where "render = (\<lambda>merged_gdf district_col_name.
      ([MsgDone], [OUTPUT_PNG, OUTPUT_SVG, OUTPUT_HTML]))"
  have q1: "find qualifies g1
      = Some \<lparr>col_name = ''DTNAME'', col_dtype = ObjectDtype, col_values = [''Pune'']\<rparr>"
    by (simp add: g1_def qualifies_def candidate_examples textual_def)
  have q2: "\<forall>a\<in>set g2. \<not> qualifies a"
    by (simp add: g2_def qualifies_def candidate_examples textual_def)
  have rf: "has_rf_column data"
    by (simp add: data_def has_rf_column_def)
  have e1: "find_district_col g1 = Some ''DTNAME''"
    using district_column_discovery [of g1] unfolding q1 by simp
  note th = district_column_discovery [of g2 parse_decimal "Some data" GoaMissing render data]
  from th q2 have e2: "find_district_col g2 = None"
    by blast
  from th e2 have e3: "snd (process_data parse_decimal (Some data) (Some g2) GoaMissing) = None"
    and e4: "snd (main render parse_decimal (Some data) (Some g2) GoaMissing) = []"
    by blast+
  from th e2 rf have e5: "last (fst (process_data parse_decimal (Some data) (Some g2) GoaMissing))
      = MsgErrorNoDistrictColMain"
    by blast
  show ?thesis
    using e1 e2 e3 e4 e5 unfolding g1_def g2_def data_def render_def by (intro conjI)
qed

subsection \<open>Unmatched identities\<close>












subsection \<open>Malformed values\<close>








end
